theory Spec2Isabelle
  imports Main
begin

section \<open>Python string operations used by the converters\<close>

text \<open>
  A Python \<open>str\<close> is modelled as a \<open>string\<close> whose characters are the code points
  U+0000 to U+00FF. \<open>isspace\<close> lists the code points of that range for which
  \<open>str.isspace\<close> holds; \<open>str.strip()\<close> without argument removes them from both ends.
\<close>

definition isspace :: "char \<Rightarrow> bool" where
  "isspace c = (of_char c \<in> {9, 10, 11, 12, 13, 28, 29, 30, 31, 32, 133, 160 :: nat})"

definition lstrip :: "string \<Rightarrow> string" where
  "lstrip s = dropWhile isspace s"

definition rstrip :: "string \<Rightarrow> string" where
  "rstrip s = rev (dropWhile isspace (rev s))"

definition strip :: "string \<Rightarrow> string" where
  "strip s = rstrip (lstrip s)"

text \<open>\<open>s.endswith(suffix)\<close>.\<close>

definition endswith :: "string \<Rightarrow> string \<Rightarrow> bool" where
  "endswith s suffix =
     (length suffix \<le> length s \<and> drop (length s - length suffix) s = suffix)"

text \<open>
  \<open>s.replace(old, new)\<close> for a non-empty \<open>old\<close> (every call of the converters passes a
  non-empty literal): the occurrences of \<open>old\<close> are replaced from left to right,
  without overlap.
\<close>

function replace :: "string \<Rightarrow> string \<Rightarrow> string \<Rightarrow> string" where
  "replace old new s =
     (if s = [] \<or> old = [] then s
      else if take (length old) s = old then new @ replace old new (drop (length old) s)
      else hd s # replace old new (tl s))"
  by pat_completeness auto
termination
  by (relation "measure (\<lambda>(old, new, s). length s)") auto

declare replace.simps [simp del]

text \<open>
  \<open>s.title()\<close> takes its case mapping from the Unicode character database, a table of
  the interpreter: in the converters it is the parameter \<open>str_title\<close>. On a string of
  ASCII characters the mapping is that of the letters A-Z and a-z: a letter that follows a
  non-letter is put in upper case, a letter that follows a letter in lower case, and the
  other characters are kept. \<open>title_ascii\<close> is \<open>s.title()\<close> for such strings; it stands
  for the parameter in the examples, whose strings are ASCII.
\<close>

definition isupper :: "char \<Rightarrow> bool" where
  "isupper c = (65 \<le> (of_char c :: nat) \<and> (of_char c :: nat) \<le> 90)"

definition islower :: "char \<Rightarrow> bool" where
  "islower c = (97 \<le> (of_char c :: nat) \<and> (of_char c :: nat) \<le> 122)"

definition upper :: "char \<Rightarrow> char" where
  "upper c = (if islower c then char_of ((of_char c :: nat) - 32) else c)"

definition lower :: "char \<Rightarrow> char" where
  "lower c = (if isupper c then char_of ((of_char c :: nat) + 32) else c)"

fun title_from :: "bool \<Rightarrow> string \<Rightarrow> string" where
  "title_from previous_is_cased [] = []"
| "title_from previous_is_cased (c # cs) =
     (if islower c then (if previous_is_cased then c else upper c) # title_from True cs
      else if isupper c then (if previous_is_cased then lower c else c) # title_from True cs
      else c # title_from False cs)"

definition title_ascii :: "string \<Rightarrow> string" where
  "title_ascii s = title_from False s"

text \<open>\<open>str(n)\<close> for a non-negative integer: its decimal digits.\<close>

definition digit_char :: "nat \<Rightarrow> char" where
  "digit_char d = char_of (48 + d)"

function str_of_nat :: "nat \<Rightarrow> string" where
  "str_of_nat n =
     (if n < 10 then [digit_char n] else str_of_nat (n div 10) @ [digit_char (n mod 10)])"
  by pat_completeness auto
termination
  by (relation "measure (\<lambda>n. n)") auto

declare str_of_nat.simps [simp del]


section \<open>The parsed document tree\<close>

text \<open>
  \<open>BeautifulSoup(html_content, 'html.parser')\<close> returns a tree of tags and strings. The
  parser is a library; the converters only query the tree, so the tree is the input of
  the model: a tag with its name, its attribute dictionary and its contents, or a string.
  The tree queries the converters use are
  \<^item> \<open>tag.find_all(name)\<close>: the descendants of the tag with that name, in document
    order (a tag comes before its own descendants);
  \<^item> \<open>tag.find(name)\<close>: the first of them, or \<open>None\<close>;
  \<^item> \<open>tag.find(name, {attr: value})\<close>: the first of them whose attribute \<open>attr\<close>
    has the value \<open>value\<close>, or \<open>None\<close> (a tag without the attribute has no value
    to compare);
  \<^item> \<open>tag.get(attr)\<close>, \<open>tag.get(attr, default)\<close>, \<open>tag[attr]\<close>: attribute lookup;
  \<^item> \<open>tag.text\<close>: the strings below the tag, concatenated in document order.
\<close>

datatype node =
    Text string
  | Elem string "(string \<times> string) list" "node list"

fun descendants :: "node \<Rightarrow> node list" where
  "descendants (Text s) = []"
| "descendants (Elem t a cs) = concat (map (\<lambda>c. c # descendants c) cs)"

fun is_tag :: "string \<Rightarrow> node \<Rightarrow> bool" where
  "is_tag nm (Text s) = False"
| "is_tag nm (Elem t a cs) = (t = nm)"

fun get_attr :: "node \<Rightarrow> string \<Rightarrow> string option" where
  "get_attr (Text s) k = None"
| "get_attr (Elem t a cs) k = map_of a k"

fun get_text :: "node \<Rightarrow> string" where
  "get_text (Text s) = s"
| "get_text (Elem t a cs) = concat (map get_text cs)"

definition find_all :: "node \<Rightarrow> string \<Rightarrow> node list" where
  "find_all n nm = filter (is_tag nm) (descendants n)"

definition find_one :: "node \<Rightarrow> string \<Rightarrow> node option" where
  "find_one n nm = (case find_all n nm of [] \<Rightarrow> None | e # _ \<Rightarrow> Some e)"

definition find_with_attr :: "node \<Rightarrow> string \<Rightarrow> string \<Rightarrow> string \<Rightarrow> node option" where
  "find_with_attr n nm k v =
     (case filter (\<lambda>e. get_attr e k = Some v) (find_all n nm) of
        [] \<Rightarrow> None
      | e # _ \<Rightarrow> Some e)"

section \<open>The output record\<close>

text \<open>
  The converters build nested dictionaries and lists. A question dictionary has the keys
  \<open>id\<close>, \<open>label\<close>, \<open>answer\<close> and, depending on the branch that built it,
  \<open>field_type\<close> and \<open>element_id\<close>: a key that the dictionary does not have is
  \<open>None\<close> here. The metadata dictionary is the list of its items in insertion order.
\<close>

record question =
  q_id :: nat
  label :: string
  answer :: string
  field_type :: "string option"
  element_id :: "string option"

record section_data =
  name :: string
  questions :: "question list"

record document =
  title :: string
  metadata :: "(string \<times> string option) list"
  sections :: "section_data list"


section \<open>The extraction passes shared by the three converters\<close>

text \<open>
  The repository holds three copies of \<open>convert_html_to_json\<close>:
  \<open>converter.py\<close> at the root, \<open>radreportconverter/converter.py\<close> and
  \<open>radreportconverter/fastapi_converter.py\<close>. The metadata pass, the resolution of a
  section's name, the loop over the sections and the title pass are the same text in
  all three; they differ in how a section's questions are built and in what happens
  before the tree is parsed.
\<close>

definition meta_fields :: "(string \<times> string) list" where
  "meta_fields =
     [(''identifier'', ''dcterms.identifier''),
      (''language'', ''dcterms.language''),
      (''publisher'', ''dcterms.publisher''),
      (''date'', ''dcterms.date''),
      (''creator'', ''dcterms.creator'')]"

text \<open>
  \<open>meta_tag['content'] if meta_tag and meta_tag.get('content') else None\<close>, for
  \<open>meta_tag = soup.find('meta', {'name': meta_name})\<close>.
\<close>

definition meta_value :: "node \<Rightarrow> string \<Rightarrow> string option" where
  "meta_value soup meta_name =
     (case find_with_attr soup ''meta'' ''name'' meta_name of
        None \<Rightarrow> None
      | Some meta_tag \<Rightarrow>
          (case get_attr meta_tag ''content'' of
             None \<Rightarrow> None
           | Some content \<Rightarrow> if content \<noteq> [] then Some content else None))"

fun metadata_loop ::
  "node \<Rightarrow> (string \<times> string) list \<Rightarrow> (string \<times> string option) list
    \<Rightarrow> (string \<times> string option) list" where
  "metadata_loop soup [] md = md"
| "metadata_loop soup ((key, meta_name) # rest) md =
     metadata_loop soup rest (md @ [(key, meta_value soup meta_name)])"

definition extract_metadata :: "node \<Rightarrow> (string \<times> string option) list" where
  "extract_metadata soup = metadata_loop soup meta_fields []"

text \<open>
  The name of a section, where \<open>n_sections\<close> is \<open>len(sections)\<close> when the section is
  handled. \<open>if not section_name\<close> holds for a missing attribute and for an empty one.
\<close>

definition section_name_of :: "node \<Rightarrow> nat \<Rightarrow> string" where
  "section_name_of section n_sections =
     (let fallback =
        (case find_one section ''header'' of
           Some header \<Rightarrow> strip (get_text header)
         | None \<Rightarrow> ''Section '' @ str_of_nat (n_sections + 1))
      in case get_attr section ''data-section-name'' of
           None \<Rightarrow> fallback
         | Some section_name \<Rightarrow> if section_name = [] then fallback else section_name)"

text \<open>
  The loop \<open>for section in soup.find_all('section')\<close>. Its parameter \<open>fill\<close> is the
  part of the loop body that fills \<open>section_data["questions"]\<close> from the section and
  its resolved name. \<open>section_entry\<close> is the loop body: the dictionary appended for a
  section when \<open>n_sections\<close> sections have been appended before it. Every section is
  appended.
\<close>

definition section_entry ::
  "(node \<Rightarrow> string \<Rightarrow> question list) \<Rightarrow> node \<Rightarrow> nat \<Rightarrow> section_data" where
  "section_entry fill section n_sections =
     (let section_name = section_name_of section n_sections
      in \<lparr>name = section_name, questions = fill section section_name\<rparr>)"

fun section_loop ::
  "(node \<Rightarrow> string \<Rightarrow> question list) \<Rightarrow> node list \<Rightarrow> section_data list
    \<Rightarrow> section_data list" where
  "section_loop fill [] secs = secs"
| "section_loop fill (section # rest) secs =
     section_loop fill rest (secs @ [section_entry fill section (length secs)])"

definition extract_title :: "node \<Rightarrow> string" where
  "extract_title soup =
     (case find_one soup ''title'' of
        Some title_tag \<Rightarrow> strip (get_text title_tag)
      | None \<Rightarrow> ''Untitled Document'')"

definition extract_document :: "(node \<Rightarrow> string \<Rightarrow> question list) \<Rightarrow> node \<Rightarrow> document" where
  "extract_document fill soup =
     (let md = extract_metadata soup;
          secs = section_loop fill (find_all soup ''section'') []
      in \<lparr>title = extract_title soup, metadata = md, sections = secs\<rparr>)"


section \<open>Building the questions of a section\<close>

subsection \<open>\<open>radreportconverter/converter.py\<close> and \<open>radreportconverter/fastapi_converter.py\<close>\<close>

text \<open>
  The label of a textarea's question when the section has no label for the textarea, or
  one with blank text. The two files differ here: \<open>converter.py\<close> has
  \<open>section_name or textarea_id.replace('Text', '').replace('_', ' ').title()\<close>,
  \<open>fastapi_converter.py\<close> has \<open>section_name\<close>.
\<close>

definition label_fallback_pkg :: "(string \<Rightarrow> string) \<Rightarrow> string \<Rightarrow> string \<Rightarrow> string" where
  "label_fallback_pkg str_title section_name textarea_id =
     (if section_name \<noteq> [] then section_name
      else str_title (replace ''_'' '' '' (replace ''Text'' [] textarea_id)))"

definition label_fallback_fastapi :: "string \<Rightarrow> string \<Rightarrow> string" where
  "label_fallback_fastapi section_name textarea_id = section_name"

text \<open>The body of the loop over the textareas; \<open>fallback\<close> is one of the two above.\<close>

definition textarea_question ::
  "(string \<Rightarrow> string \<Rightarrow> string) \<Rightarrow> node \<Rightarrow> string \<Rightarrow> nat \<Rightarrow> node \<Rightarrow> question" where
  "textarea_question fallback section section_name question_id textarea =
     (let textarea_id = (case get_attr textarea ''id'' of Some v \<Rightarrow> v | None \<Rightarrow> []);
          label_element = find_with_attr section ''label'' ''for'' textarea_id;
          label_text =
            (case label_element of
               None \<Rightarrow> fallback section_name textarea_id
             | Some l \<Rightarrow>
                 if strip (get_text l) \<noteq> [] then strip (get_text l)
                 else fallback section_name textarea_id);
          default_content =
            (if get_text textarea \<noteq> [] then strip (get_text textarea) else [])
      in \<lparr>q_id = question_id, label = label_text, answer = default_content,
          field_type =
            Some (case get_attr textarea ''data-field-type'' of
                    Some v \<Rightarrow> v
                  | None \<Rightarrow> ''TEXTAREA''),
          element_id = Some textarea_id\<rparr>)"

text \<open>\<open>for textarea in textareas\<close>, with the counter \<open>question_id\<close> and the list built so far.\<close>

fun textarea_loop ::
  "(string \<Rightarrow> string \<Rightarrow> string) \<Rightarrow> node \<Rightarrow> string \<Rightarrow> node list \<Rightarrow> nat \<Rightarrow> question list
    \<Rightarrow> question list" where
  "textarea_loop fallback section section_name [] question_id qs = qs"
| "textarea_loop fallback section section_name (textarea # rest) question_id qs =
     textarea_loop fallback section section_name rest (question_id + 1)
       (qs @ [textarea_question fallback section section_name question_id textarea])"

definition label_question :: "nat \<Rightarrow> node \<Rightarrow> question" where
  "label_question question_id l =
     \<lparr>q_id = question_id, label = strip (get_text l), answer = [],
      field_type = Some ''LABEL'', element_id = None\<rparr>"

text \<open>\<open>for label in labels: if label.text.strip(): ...\<close>\<close>

fun label_loop :: "node list \<Rightarrow> nat \<Rightarrow> question list \<Rightarrow> question list" where
  "label_loop [] question_id qs = qs"
| "label_loop (l # rest) question_id qs =
     (if strip (get_text l) \<noteq> []
      then label_loop rest (question_id + 1) (qs @ [label_question question_id l])
      else label_loop rest question_id qs)"

definition section_question :: "string \<Rightarrow> question" where
  "section_question section_name =
     \<lparr>q_id = 0, label = section_name, answer = [],
      field_type = Some ''SECTION'', element_id = None\<rparr>"

definition fields_strategy ::
  "(string \<Rightarrow> string \<Rightarrow> string) \<Rightarrow> node \<Rightarrow> string \<Rightarrow> question list" where
  "fields_strategy fallback section section_name =
     (let textareas = find_all section ''textarea'';
          qs = (if textareas \<noteq> []
                then textarea_loop fallback section section_name textareas 0 []
                else label_loop (find_all section ''label'') 0 [])
      in if qs = [] then qs @ [section_question section_name] else qs)"

definition fields_pkg :: "(string \<Rightarrow> string) \<Rightarrow> node \<Rightarrow> string \<Rightarrow> question list" where
  "fields_pkg str_title = fields_strategy (label_fallback_pkg str_title)"

definition fields_fastapi :: "node \<Rightarrow> string \<Rightarrow> question list" where
  "fields_fastapi = fields_strategy label_fallback_fastapi"

subsection \<open>\<open>converter.py\<close> at the root\<close>

text \<open>
  One question per label of the section, whatever its text; the question dictionaries
  have no \<open>field_type\<close> and no \<open>element_id\<close>, and nothing is added to an empty list.
\<close>

fun fields_root_loop :: "node list \<Rightarrow> nat \<Rightarrow> question list \<Rightarrow> question list" where
  "fields_root_loop [] question_id qs = qs"
| "fields_root_loop (l # rest) question_id qs =
     fields_root_loop rest (question_id + 1)
       (qs @ [\<lparr>q_id = question_id, label = strip (get_text l), answer = [],
               field_type = None, element_id = None\<rparr>])"

definition fields_root :: "node \<Rightarrow> string \<Rightarrow> question list" where
  "fields_root section section_name = fields_root_loop (find_all section ''label'') 0 []"


section \<open>The three entry points\<close>

text \<open>
  The two \<open>converter.py\<close> files take a file name, read the file from the directory of
  the script and reject a missing file and an empty or blank text before they parse.
  A directory is the list of its entries, each a file name with the text that reading it
  yields (as UTF-8, or as Latin-1 when that fails). \<open>fastapi_converter.py\<close> takes the
  text itself and parses it at once. The parser \<open>BeautifulSoup\<close> is a parameter, and so
  is \<open>str_title\<close> where \<open>radreportconverter/converter.py\<close> calls \<open>title()\<close>.
\<close>

datatype py_error = FileNotFoundError | ValueError | UnboundLocalError

type_synonym directory = "(string \<times> string) list"

definition convert_file ::
  "(node \<Rightarrow> string \<Rightarrow> question list) \<Rightarrow> (string \<Rightarrow> node) \<Rightarrow> directory \<Rightarrow> string
    \<Rightarrow> py_error + document" where
  "convert_file fill BeautifulSoup dir filename =
     (case map_of dir filename of
        None \<Rightarrow> Inl FileNotFoundError
      | Some html_content \<Rightarrow>
          if html_content = [] \<or> length (strip html_content) = 0 then Inl ValueError
          else Inr (extract_document fill (BeautifulSoup html_content)))"

definition convert_html_to_json_root ::
  "(string \<Rightarrow> node) \<Rightarrow> directory \<Rightarrow> string \<Rightarrow> py_error + document" where
  "convert_html_to_json_root = convert_file fields_root"

definition convert_html_to_json_pkg ::
  "(string \<Rightarrow> string) \<Rightarrow> (string \<Rightarrow> node) \<Rightarrow> directory \<Rightarrow> string \<Rightarrow> py_error + document" where
  "convert_html_to_json_pkg str_title = convert_file (fields_pkg str_title)"

definition convert_html_to_json_fastapi :: "(string \<Rightarrow> node) \<Rightarrow> string \<Rightarrow> py_error + document" where
  "convert_html_to_json_fastapi BeautifulSoup html_content =
     Inr (extract_document fields_fastapi (BeautifulSoup html_content))"

section \<open>Writing the result and the batch driver\<close>

text \<open>
  \<open>save_json_output(data, output_filename=None)\<close> of \<open>converter.py\<close> at the root opens
  \<open>output_filename\<close> for writing and dumps the data into it. The serialiser \<open>json.dump(data, f, indent=2,
  ensure_ascii=False)\<close> is a library function and a parameter here. The working
  directory of the process is taken to be the directory of the script, where the
  converters read their input.
\<close>

fun write_file :: "string \<Rightarrow> string \<Rightarrow> directory \<Rightarrow> directory" where
  "write_file f content [] = [(f, content)]"
| "write_file f content ((g, old) # rest) =
     (if g = f then (f, content) # rest else (g, old) # write_file f content rest)"

definition save_json_output_root ::
  "(document \<Rightarrow> string) \<Rightarrow> directory \<Rightarrow> document \<Rightarrow> string option
    \<Rightarrow> py_error + directory" where
  "save_json_output_root json_dumps dir data output_filename =
     (let output_filename =
            (case output_filename of
               None \<Rightarrow> ''converted_output.json''
             | Some f \<Rightarrow> f)
      in Inr (write_file output_filename (json_dumps data) dir))"

text \<open>
  \<open>save_json_output(data, filename)\<close> of \<open>radreportconverter/converter.py\<close> starts with the
  body of \<open>analyze_html_structure\<close>: when the file \<open>filename\<close> does not exist it returns
  an error dictionary; otherwise it reads and analyses that file and then evaluates
  \<open>output_filename is None\<close>, where \<open>output_filename\<close> is a local variable that has
  no value yet. The statements that open the output file and dump the data are never
  reached. The result is the directory after the call.
\<close>

definition save_json_output_pkg :: "directory \<Rightarrow> document \<Rightarrow> string \<Rightarrow> py_error + directory" where
  "save_json_output_pkg dir data filename =
     (case map_of dir filename of
        None \<Rightarrow> Inr dir
      | Some html_content \<Rightarrow> Inl UnboundLocalError)"

text \<open>
  The body of \<open>for i, html_filename in enumerate(html_files, 1)\<close>: the state is the
  directory with the two counters \<open>successful_conversions\<close> and
  \<open>failed_conversions\<close>. \<open>except Exception\<close> catches what the conversion and the
  saving raise. The parameters are the converter and the saving function of the module.
\<close>

definition convert_one ::
  "(directory \<Rightarrow> string \<Rightarrow> py_error + document)
    \<Rightarrow> (directory \<Rightarrow> document \<Rightarrow> string \<Rightarrow> py_error + directory)
    \<Rightarrow> string \<Rightarrow> directory \<times> nat \<times> nat \<Rightarrow> directory \<times> nat \<times> nat" where
  "convert_one convert save html_filename st =
     (case st of (dir, successful_conversions, failed_conversions) \<Rightarrow>
        (case convert dir html_filename of
           Inl e \<Rightarrow> (dir, successful_conversions, failed_conversions + 1)
         | Inr result \<Rightarrow>
             (case save dir result (replace ''.html'' ''.json'' html_filename) of
                Inl e \<Rightarrow> (dir, successful_conversions, failed_conversions + 1)
              | Inr dir' \<Rightarrow> (dir', successful_conversions + 1, failed_conversions))))"

fun convert_loop ::
  "(directory \<Rightarrow> string \<Rightarrow> py_error + document)
    \<Rightarrow> (directory \<Rightarrow> document \<Rightarrow> string \<Rightarrow> py_error + directory)
    \<Rightarrow> string list \<Rightarrow> directory \<times> nat \<times> nat \<Rightarrow> directory \<times> nat \<times> nat" where
  "convert_loop convert save [] st = st"
| "convert_loop convert save (html_filename # rest) st =
     convert_loop convert save rest (convert_one convert save html_filename st)"

text \<open>
  \<open>convert_all_html_files\<close>: the result is the directory afterwards and the two counts
  of the printed summary, \<open>None\<close> when the function returns early because the directory
  has no \<open>.html\<close> file. The directory's entries are in the order of \<open>os.listdir\<close>. In
  \<open>radreportconverter/converter.py\<close> a first loop calls \<open>analyze_html_structure\<close> on
  every file and prints what it returns; it reads the files only.
\<close>

definition convert_all ::
  "(directory \<Rightarrow> string \<Rightarrow> py_error + document)
    \<Rightarrow> (directory \<Rightarrow> document \<Rightarrow> string \<Rightarrow> py_error + directory)
    \<Rightarrow> directory \<Rightarrow> directory \<times> (nat \<times> nat) option" where
  "convert_all convert save dir =
     (let html_files = filter (\<lambda>f. endswith f ''.html'') (map fst dir)
      in if html_files = [] then (dir, None)
         else (case convert_loop convert save html_files (dir, 0, 0) of
                 (dir', successful_conversions, failed_conversions) \<Rightarrow>
                   (dir', Some (successful_conversions, failed_conversions))))"

definition convert_all_html_files_root ::
  "(string \<Rightarrow> node) \<Rightarrow> (document \<Rightarrow> string) \<Rightarrow> directory \<Rightarrow> directory \<times> (nat \<times> nat) option" where
  "convert_all_html_files_root BeautifulSoup json_dumps =
     convert_all (convert_html_to_json_root BeautifulSoup)
       (\<lambda>dir result output_name. save_json_output_root json_dumps dir result (Some output_name))"

definition convert_all_html_files_pkg ::
  "(string \<Rightarrow> string) \<Rightarrow> (string \<Rightarrow> node) \<Rightarrow> directory
    \<Rightarrow> directory \<times> (nat \<times> nat) option" where
  "convert_all_html_files_pkg str_title BeautifulSoup =
     convert_all (convert_html_to_json_pkg str_title BeautifulSoup) save_json_output_pkg"

section \<open>Notions the properties are stated with\<close>

text \<open>
  \<open>converts str_title BeautifulSoup c html_content doc\<close>: the converter \<open>c\<close> of the repository
  returns the dictionary \<open>doc\<close> for a file whose text is \<open>html_content\<close> (for
  \<open>fastapi_converter.py\<close>: for that text).
\<close>

datatype converter = Root | Pkg | Fastapi

fun fill_of :: "(string \<Rightarrow> string) \<Rightarrow> converter \<Rightarrow> node \<Rightarrow> string \<Rightarrow> question list" where
  "fill_of str_title Root = fields_root"
| "fill_of str_title Pkg = fields_pkg str_title"
| "fill_of str_title Fastapi = fields_fastapi"

inductive converts ::
  "(string \<Rightarrow> string) \<Rightarrow> (string \<Rightarrow> node) \<Rightarrow> converter \<Rightarrow> string \<Rightarrow> document \<Rightarrow> bool"
  for str_title :: "string \<Rightarrow> string" and BeautifulSoup :: "string \<Rightarrow> node" where
  root:
    "map_of dir filename = Some html_content
      \<Longrightarrow> convert_html_to_json_root BeautifulSoup dir filename = Inr doc
      \<Longrightarrow> converts str_title BeautifulSoup Root html_content doc"
| pkg:
    "map_of dir filename = Some html_content
      \<Longrightarrow> convert_html_to_json_pkg str_title BeautifulSoup dir filename = Inr doc
      \<Longrightarrow> converts str_title BeautifulSoup Pkg html_content doc"
| fastapi:
    "convert_html_to_json_fastapi BeautifulSoup html_content = Inr doc
      \<Longrightarrow> converts str_title BeautifulSoup Fastapi html_content doc"

text \<open>The labels of a section whose trimmed text is not empty, in document order.\<close>

definition nonblank_labels :: "node \<Rightarrow> node list" where
  "nonblank_labels section = filter (\<lambda>l. strip (get_text l) \<noteq> []) (find_all section ''label'')"

text \<open>\<open>textarea.get('id', '')\<close>\<close>

definition textarea_id_of :: "node \<Rightarrow> string" where
  "textarea_id_of textarea = (case get_attr textarea ''id'' of Some v \<Rightarrow> v | None \<Rightarrow> [])"

text \<open>The inverse of \<open>str\<close> on digit strings, to state that \<open>str_of_nat\<close> is the decimal numeral.\<close>

fun nat_of_str :: "string \<Rightarrow> nat \<Rightarrow> nat" where
  "nat_of_str [] acc = acc"
| "nat_of_str (c # cs) acc = nat_of_str cs (10 * acc + (of_char c - 48))"


section \<open>Example inputs\<close>

text \<open>
  Seven HTML texts with the trees that the parser builds for them; \<open>parse_example\<close> is
  the parser on these texts and on the empty text, whose tree has no contents.
\<close>

definition page_report :: string where
  "page_report =
     ''<title>Chest CT</title><meta name=dcterms.creator content=DrX>'' @
     ''<section data-section-name=Findings><label for=f1>Lungs</label>'' @
     ''<textarea id=f1>normal</textarea></section>'' @
     ''<section><label>Name</label><label> </label></section><section></section>''"

definition soup_report :: node where
  "soup_report =
     Elem ''[document]'' []
       [Elem ''title'' [] [Text ''Chest CT''],
        Elem ''meta'' [(''name'', ''dcterms.creator''), (''content'', ''DrX'')] [],
        Elem ''section'' [(''data-section-name'', ''Findings'')]
          [Elem ''label'' [(''for'', ''f1'')] [Text ''Lungs''],
           Elem ''textarea'' [(''id'', ''f1'')] [Text ''normal'']],
        Elem ''section'' []
          [Elem ''label'' [] [Text ''Name''], Elem ''label'' [] [Text '' '']],
        Elem ''section'' [] []]"

definition page_blank_header :: string where
  "page_blank_header =
     ''<section><header></header><textarea id=findingsText></textarea></section>''"

definition soup_blank_header :: node where
  "soup_blank_header =
     Elem ''[document]'' []
       [Elem ''section'' []
          [Elem ''header'' [] [], Elem ''textarea'' [(''id'', ''findingsText'')] []]]"

definition page_empty_name :: string where
  "page_empty_name =
     ''<section data-section-name><header>Intro</header></section>'' @
     ''<section data-section-name></section>''"

definition soup_empty_name :: node where
  "soup_empty_name =
     Elem ''[document]'' []
       [Elem ''section'' [(''data-section-name'', [])] [Elem ''header'' [] [Text ''Intro'']],
        Elem ''section'' [(''data-section-name'', [])] []]"

definition page_two_labels :: string where
  "page_two_labels =
     ''<section data-section-name=S><label for=f1> </label><label for=f1>Lungs</label>'' @
     ''<textarea id=f1></textarea></section>''"

definition soup_two_labels :: node where
  "soup_two_labels =
     Elem ''[document]'' []
       [Elem ''section'' [(''data-section-name'', ''S'')]
          [Elem ''label'' [(''for'', ''f1'')] [Text '' ''],
           Elem ''label'' [(''for'', ''f1'')] [Text ''Lungs''],
           Elem ''textarea'' [(''id'', ''f1'')] []]]"

definition page_no_id :: string where
  "page_no_id = ''<section data-section-name=S><textarea></textarea></section>''"

definition soup_no_id :: node where
  "soup_no_id =
     Elem ''[document]'' []
       [Elem ''section'' [(''data-section-name'', ''S'')] [Elem ''textarea'' [] []]]"

definition page_blank_name :: string where
  "page_blank_name = ''<section data-section-name><header> </header></section>''"

definition soup_blank_name :: node where
  "soup_blank_name =
     Elem ''[document]'' []
       [Elem ''section'' [(''data-section-name'', [])] [Elem ''header'' [] [Text '' '']]]"

definition page_bare_section :: string where
  "page_bare_section = ''<section></section>''"

definition soup_bare_section :: node where
  "soup_bare_section = Elem ''[document]'' [] [Elem ''section'' [] []]"

definition parse_example :: "string \<Rightarrow> node" where
  "parse_example html_content =
     (if html_content = page_report then soup_report
      else if html_content = page_blank_header then soup_blank_header
      else if html_content = page_empty_name then soup_empty_name
      else if html_content = page_bare_section then soup_bare_section
      else if html_content = page_two_labels then soup_two_labels
      else if html_content = page_no_id then soup_no_id
      else if html_content = page_blank_name then soup_blank_name
      else Elem ''[document]'' [] [])"

definition dir_bare_section :: directory where
  "dir_bare_section = [(''a.html'', page_bare_section)]"

definition dir_example :: directory where
  "dir_example = [(''report.html'', page_report), (''notes.txt'', ''n'')]"


section \<open>The loops as maps over the elements\<close>

text \<open>
  Each loop appends one entry per element, in the order of the elements, and its counter
  is the position of the entry: the loops are maps over the enumerated elements.
\<close>

lemma section_loop_eq:
  "section_loop fill ss acc = acc @ map (\<lambda>(i, s). section_entry fill s i) (enumerate (length acc) ss)"
  by (induction ss arbitrary: acc) simp_all

lemma textarea_loop_eq:
  "textarea_loop fb sec nm ts k qs = qs @ map (\<lambda>(i, t). textarea_question fb sec nm i t) (enumerate k ts)"
  by (induction ts arbitrary: k qs) simp_all

lemma label_loop_eq:
  "label_loop ls k qs = qs @ map (\<lambda>(i, l). label_question i l) (enumerate k (filter (\<lambda>l. strip (get_text l) \<noteq> []) ls))"
  by (induction ls arbitrary: k qs) simp_all

lemma fields_root_loop_eq:
  "fields_root_loop ls k qs = qs @ map (\<lambda>(i, l). \<lparr>q_id = i, label = strip (get_text l), answer = [],
               field_type = None, element_id = None\<rparr>) (enumerate k ls)"
  by (induction ls arbitrary: k qs) simp_all

lemma metadata_loop_eq:
  "metadata_loop soup fs md = md @ map (\<lambda>(key, meta_name). (key, meta_value soup meta_name)) fs"
  by (induction fs arbitrary: md) auto

lemma sections_extract:
  "sections (extract_document fill soup) = map (\<lambda>(i, s). section_entry fill s i) (enumerate 0 (find_all soup ''section''))"
  by (simp add: extract_document_def section_loop_eq)

lemma all_dropWhile: "(\<forall>x\<in>set (dropWhile P s). P x) \<longleftrightarrow> (\<forall>x\<in>set s. P x)"
  by (induction s) auto

lemma strip_empty_iff: "strip s = [] \<longleftrightarrow> (\<forall>c \<in> set s. isspace c)"
  by (simp add: strip_def rstrip_def lstrip_def dropWhile_eq_Nil_conv all_dropWhile)

lemma enumerate_Nil_iff: "enumerate n xs = [] \<longleftrightarrow> xs = []"
  by (cases xs) simp_all

lemma fields_strategy_eq:
  "fields_strategy fb sec nm =
     (if find_all sec ''textarea'' \<noteq> [] then map (\<lambda>(i, t). textarea_question fb sec nm i t) (enumerate 0 (find_all sec ''textarea''))
         else if nonblank_labels sec \<noteq> [] then map (\<lambda>(i, l). label_question i l) (enumerate 0 (nonblank_labels sec))
         else [section_question nm])"
  by (simp add: fields_strategy_def Let_def textarea_loop_eq label_loop_eq enumerate_Nil_iff nonblank_labels_def)

lemma convert_file_Inr:
  "convert_file fill BS dir f = Inr doc \<longleftrightarrow>
     (\<exists>html. map_of dir f = Some html \<and> strip html \<noteq> [] \<and> doc = extract_document fill (BS html))"
  by (auto simp: convert_file_def strip_empty_iff split: option.splits)

lemma converts_extract:
  "converts str_title BS c html doc \<Longrightarrow> doc = extract_document (fill_of str_title c) (BS html)"
  by (induction rule: converts.induct)
     (auto simp: convert_html_to_json_root_def convert_html_to_json_pkg_def
        convert_html_to_json_fastapi_def convert_file_Inr)

lemma nth_sections:
  assumes "converts str_title BS c html doc" and "i < length (find_all (BS html) ''section'')"
  shows "sections doc ! i = section_entry (fill_of str_title c) (find_all (BS html) ''section'' ! i) i"
  using assms(2) by (simp add: converts_extract [OF assms(1)] sections_extract nth_enumerate_eq)

lemma length_sections:
  assumes "converts str_title BS c html doc"
  shows "length (sections doc) = length (find_all (BS html) ''section'')"
  by (simp add: converts_extract [OF assms] sections_extract)

lemma nat_of_str_append: "nat_of_str (xs @ ys) acc = nat_of_str ys (nat_of_str xs acc)"
  by (induction xs arbitrary: acc) simp_all

lemma nat_of_str_of_nat: "nat_of_str (str_of_nat n) 0 = n"
proof (induction n rule: str_of_nat.induct)
  case (1 n)
  show ?case
  proof (cases "n < 10")
    case True
    then show ?thesis by (subst str_of_nat.simps) (simp add: digit_char_def)
  next
    case False
    have d: "of_char (digit_char (n mod 10)) = 48 + n mod 10"
      by (simp add: digit_char_def)
    from False 1 show ?thesis
      by (subst str_of_nat.simps) (simp add: nat_of_str_append d)
  qed
qed

lemma section_name_of_synth:
  assumes "get_attr s ''data-section-name'' = None" and "find_all s ''header'' = []"
  shows "section_name_of s n = ''Section '' @ str_of_nat (n + 1)"
  using assms by (simp add: section_name_of_def find_one_def)


section \<open>Facts about the example inputs\<close>

lemma parse_report: "parse_example page_report = soup_report"
  by (simp add: parse_example_def)

lemma strip_page_report: "strip page_report \<noteq> [] \<and> page_report \<noteq> []"
  by code_simp

lemma converts_report_pkg:
  "converts title_ascii parse_example Pkg page_report (extract_document (fields_pkg title_ascii) soup_report)"
  by (rule converts.pkg [where dir = dir_example and filename = "''report.html''"])
     (simp_all add: dir_example_def convert_html_to_json_pkg_def convert_file_def
        parse_report strip_page_report)

lemma sections_report:
  "find_all soup_report ''section'' =
     [Elem ''section'' [(''data-section-name'', ''Findings'')]
          [Elem ''label'' [(''for'', ''f1'')] [Text ''Lungs''],
           Elem ''textarea'' [(''id'', ''f1'')] [Text ''normal'']],
        Elem ''section'' []
          [Elem ''label'' [] [Text ''Name''], Elem ''label'' [] [Text '' '']],
        Elem ''section'' [] []]"
  by (simp add: soup_report_def find_all_def)


section \<open>Section names\<close>

text \<open>
  C7. A section element without a \<open>data-section-name\<close> attribute and without a
  \<open>header\<close> element below it gets the name \<open>"Section N"\<close>, where \<open>N\<close> is the decimal
  numeral of its 1-based position among the section elements, for each of the three
  converters; when the loop handles such a section, \<open>N\<close> is one plus the number of
  sections appended so far.
\<close>

theorem synthesized_section_name:
  assumes "converts str_title BS c html doc"
    and "i < length (find_all (BS html) ''section'')"
    and "get_attr (find_all (BS html) ''section'' ! i) ''data-section-name'' = None"
    and "find_all (find_all (BS html) ''section'' ! i) ''header'' = []"
  shows "name (sections doc ! i) = ''Section '' @ str_of_nat (i + 1)
    \<and> nat_of_str (str_of_nat (i + 1)) 0 = i + 1
    \<and> (\<forall>fill rest secs.
          section_loop fill ((find_all (BS html) ''section'' ! i) # rest) secs =
          section_loop fill rest
            (secs @ [\<lparr>name = ''Section '' @ str_of_nat (length secs + 1),
                       questions = fill (find_all (BS html) ''section'' ! i)
                                     (''Section '' @ str_of_nat (length secs + 1))\<rparr>]))"
proof -
  let ?s = "find_all (BS html) ''section'' ! i"
  have nm: "section_name_of ?s n = ''Section '' @ str_of_nat (n + 1)" for n
    using assms(3,4) by (rule section_name_of_synth)
  have "sections doc ! i = section_entry (fill_of str_title c) ?s i"
    using assms(1,2) by (rule nth_sections)
  then have "name (sections doc ! i) = ''Section '' @ str_of_nat (i + 1)"
    by (simp add: section_entry_def Let_def nm)
  moreover have "nat_of_str (str_of_nat (i + 1)) 0 = i + 1"
    by (rule nat_of_str_of_nat)
  moreover have "section_loop fill (?s # rest) secs =
          section_loop fill rest
            (secs @ [\<lparr>name = ''Section '' @ str_of_nat (length secs + 1),
                       questions = fill ?s (''Section '' @ str_of_nat (length secs + 1))\<rparr>])"
    for fill rest secs
    by (simp add: section_entry_def Let_def nm)
  ultimately show ?thesis by blast
qed

theorem synthesized_section_name_witness:
  "converts title_ascii parse_example Pkg page_report (extract_document (fields_pkg title_ascii) soup_report)
   \<and> (1::nat) < length (find_all (parse_example page_report) ''section'')
   \<and> get_attr (find_all (parse_example page_report) ''section'' ! 1) ''data-section-name'' = None
   \<and> find_all (find_all (parse_example page_report) ''section'' ! 1) ''header'' = []
   \<and> name (sections (extract_document (fields_pkg title_ascii) soup_report) ! 1) = ''Section 2''"
proof -
  have two: "str_of_nat (1 + 1) = ''2''"
    by code_simp
  have h2: "(1::nat) < length (find_all (parse_example page_report) ''section'')"
    by (simp add: parse_report sections_report)
  have h3: "get_attr (find_all (parse_example page_report) ''section'' ! 1) ''data-section-name'' = None"
    by (simp add: parse_report sections_report)
  have h4: "find_all (find_all (parse_example page_report) ''section'' ! 1) ''header'' = []"
    by (simp add: parse_report sections_report) (simp add: find_all_def)
  have "name (sections (extract_document (fields_pkg title_ascii) soup_report) ! 1)
      = ''Section '' @ str_of_nat (1 + 1)"
    using synthesized_section_name [OF converts_report_pkg h2 h3 h4] by (rule conjunct1)
  then have "name (sections (extract_document (fields_pkg title_ascii) soup_report) ! 1) = ''Section 2''"
    unfolding two by simp
  with converts_report_pkg h2 h3 h4 show ?thesis by blast
qed









section \<open>Order of sections and questions\<close>

lemma fields_root_eq:
  "fields_root sec nm =
     map (\<lambda>(k, l). \<lparr>q_id = k, label = strip (get_text l), answer = [],
                       field_type = None, element_id = None\<rparr>)
       (enumerate 0 (find_all sec ''label''))"
  by (simp add: fields_root_def fields_root_loop_eq)

lemma nonblank_file_converts:
  assumes "map_of dir filename = Some html" and "strip html \<noteq> []"
  shows "convert_file fill BS dir filename = Inr (extract_document fill (BS html))"
  using assms by (auto simp: convert_file_def strip_def lstrip_def rstrip_def)

lemma file_report: "map_of dir_example ''report.html'' = Some page_report"
  by (simp add: dir_example_def)

text \<open>
  C5. A file whose text is not blank is converted by both \<open>converter.py\<close> files, and
  \<open>fastapi_converter.py\<close> converts every text. Whenever one of the three converters
  returns a document for a text whose tree has \<open>N\<close> section elements, the document has
  \<open>N\<close> sections, the \<open>i\<close>-th of them built from the \<open>i\<close>-th section element in document
  order, and the questions of a section follow the document order of the elements they
  are built from: the labels for \<open>converter.py\<close> at the root; for the other two the
  textareas when the section has one, else the labels with non-blank text when the
  section has one. The \<open>k\<close>-th question has the id \<open>k\<close>.
\<close>

theorem sections_in_source_order:
  "(map_of dir filename = Some html \<and> strip html \<noteq> [] \<longrightarrow>
      (\<exists>doc. convert_html_to_json_root BS dir filename = Inr doc) \<and>
      (\<exists>doc. convert_html_to_json_pkg str_title BS dir filename = Inr doc))
   \<and> (\<exists>doc. convert_html_to_json_fastapi BS html = Inr doc)
   \<and> (\<forall>c doc. converts str_title BS c html doc \<longrightarrow>
        length (sections doc) = length (find_all (BS html) ''section'') \<and>
        (\<forall>i < length (find_all (BS html) ''section'').
           name (sections doc ! i) = section_name_of (find_all (BS html) ''section'' ! i) i \<and>
           (c = Root \<longrightarrow>
              questions (sections doc ! i) =
                map (\<lambda>(k, l). \<lparr>q_id = k, label = strip (get_text l), answer = [],
                                  field_type = None, element_id = None\<rparr>)
                  (enumerate 0 (find_all (find_all (BS html) ''section'' ! i) ''label''))) \<and>
           (c \<noteq> Root \<and> find_all (find_all (BS html) ''section'' ! i) ''textarea'' \<noteq> [] \<longrightarrow>
              questions (sections doc ! i) =
                map (\<lambda>(k, t). textarea_question
                                        (if c = Pkg then label_fallback_pkg str_title else label_fallback_fastapi)
                                        (find_all (BS html) ''section'' ! i)
                                  (name (sections doc ! i)) k t)
                  (enumerate 0 (find_all (find_all (BS html) ''section'' ! i) ''textarea''))) \<and>
           (c \<noteq> Root \<and> find_all (find_all (BS html) ''section'' ! i) ''textarea'' = [] \<and>
            nonblank_labels (find_all (BS html) ''section'' ! i) \<noteq> [] \<longrightarrow>
              questions (sections doc ! i) =
                map (\<lambda>(k, l). label_question k l)
                  (enumerate 0 (nonblank_labels (find_all (BS html) ''section'' ! i))))))"
proof (intro conjI allI impI)
  assume "map_of dir filename = Some html \<and> strip html \<noteq> []"
  then show "\<exists>doc. convert_html_to_json_root BS dir filename = Inr doc"
    by (simp add: convert_html_to_json_root_def nonblank_file_converts)
next
  assume "map_of dir filename = Some html \<and> strip html \<noteq> []"
  then show "\<exists>doc. convert_html_to_json_pkg str_title BS dir filename = Inr doc"
    by (simp add: convert_html_to_json_pkg_def nonblank_file_converts)
next
  show "\<exists>doc. convert_html_to_json_fastapi BS html = Inr doc"
    by (simp add: convert_html_to_json_fastapi_def)
next
  fix c doc assume "converts str_title BS c html doc"
  then show "length (sections doc) = length (find_all (BS html) ''section'')"
    by (rule length_sections)
next
  fix c doc i
  assume cv: "converts str_title BS c html doc" and i: "i < length (find_all (BS html) ''section'')"
  have e: "sections doc ! i = section_entry (fill_of str_title c) (find_all (BS html) ''section'' ! i) i"
    using cv i by (rule nth_sections)
  show "name (sections doc ! i) = section_name_of (find_all (BS html) ''section'' ! i) i"
    by (simp add: e section_entry_def Let_def)
  { assume "c = Root"
    then show "questions (sections doc ! i) =
                map (\<lambda>(k, l). \<lparr>q_id = k, label = strip (get_text l), answer = [],
                                  field_type = None, element_id = None\<rparr>)
                  (enumerate 0 (find_all (find_all (BS html) ''section'' ! i) ''label''))"
      by (simp add: e section_entry_def Let_def fields_root_eq) }
  { assume "c \<noteq> Root \<and> find_all (find_all (BS html) ''section'' ! i) ''textarea'' \<noteq> []"
    then show "questions (sections doc ! i) =
                map (\<lambda>(k, t). textarea_question
                                        (if c = Pkg then label_fallback_pkg str_title else label_fallback_fastapi)
                                        (find_all (BS html) ''section'' ! i)
                                  (name (sections doc ! i)) k t)
                  (enumerate 0 (find_all (find_all (BS html) ''section'' ! i) ''textarea''))"
      by (cases c)
         (simp_all add: e section_entry_def Let_def fields_pkg_def fields_fastapi_def
            fields_strategy_eq) }
  { assume "c \<noteq> Root \<and> find_all (find_all (BS html) ''section'' ! i) ''textarea'' = [] \<and>
            nonblank_labels (find_all (BS html) ''section'' ! i) \<noteq> []"
    then show "questions (sections doc ! i) =
                map (\<lambda>(k, l). label_question k l)
                  (enumerate 0 (nonblank_labels (find_all (BS html) ''section'' ! i)))"
      by (cases c)
         (simp_all add: e section_entry_def Let_def fields_pkg_def fields_fastapi_def
            fields_strategy_eq) }
qed

theorem sections_in_source_order_witness:
  "map_of dir_example ''report.html'' = Some page_report
   \<and> strip page_report \<noteq> []
   \<and> (\<exists>doc. convert_html_to_json_pkg title_ascii parse_example dir_example ''report.html'' = Inr doc)
   \<and> converts title_ascii parse_example Pkg page_report (extract_document (fields_pkg title_ascii) soup_report)
   \<and> length (sections (extract_document (fields_pkg title_ascii) soup_report)) = 3
   \<and> (1::nat) < length (find_all (parse_example page_report) ''section'')
   \<and> name (sections (extract_document (fields_pkg title_ascii) soup_report) ! 1) = ''Section 2''
   \<and> questions (sections (extract_document (fields_pkg title_ascii) soup_report) ! 1) =
        [\<lparr>q_id = 0, label = ''Name'', answer = [], field_type = Some ''LABEL'',
          element_id = None\<rparr>]"
proof -
  note inst = sections_in_source_order
    [of dir_example "''report.html''" page_report parse_example]
  have h: "map_of dir_example ''report.html'' = Some page_report \<and> strip page_report \<noteq> []"
    by (simp add: file_report strip_page_report)
  have ex: "\<exists>doc. convert_html_to_json_pkg title_ascii parse_example dir_example ''report.html'' = Inr doc"
    using inst h by blast
  have i: "(1::nat) < length (find_all (parse_example page_report) ''section'')"
    by (simp add: parse_report sections_report)
  have len: "length (sections (extract_document (fields_pkg title_ascii) soup_report))
      = length (find_all (parse_example page_report) ''section'')"
    using inst converts_report_pkg by blast
  have nm: "name (sections (extract_document (fields_pkg title_ascii) soup_report) ! 1)
      = section_name_of (find_all (parse_example page_report) ''section'' ! 1) 1"
    using inst converts_report_pkg i by blast
  have ta: "find_all (find_all (parse_example page_report) ''section'' ! 1) ''textarea'' = []"
    by (simp add: parse_report sections_report) (simp add: find_all_def)
  have nb: "nonblank_labels (find_all (parse_example page_report) ''section'' ! 1)
      = [Elem ''label'' [] [Text ''Name'']]"
    by (simp add: parse_report sections_report) code_simp
  have "Pkg \<noteq> Root \<and> find_all (find_all (parse_example page_report) ''section'' ! 1) ''textarea'' = []
      \<and> nonblank_labels (find_all (parse_example page_report) ''section'' ! 1) \<noteq> []"
    using ta nb by simp
  then have qs: "questions (sections (extract_document (fields_pkg title_ascii) soup_report) ! 1) =
      map (\<lambda>(k, l). label_question k l)
        (enumerate 0 (nonblank_labels (find_all (parse_example page_report) ''section'' ! 1)))"
    using inst converts_report_pkg i by blast
  have n2: "section_name_of (find_all (parse_example page_report) ''section'' ! 1) 1 = ''Section 2''"
    by (simp add: parse_report sections_report) code_simp
  have lq: "label_question 0 (Elem ''label'' [] [Text ''Name'']) =
      \<lparr>q_id = 0, label = ''Name'', answer = [], field_type = Some ''LABEL'', element_id = None\<rparr>"
    by code_simp
  have l3: "length (find_all (parse_example page_report) ''section'') = 3"
    by (simp add: parse_report sections_report)
  have q1: "questions (sections (extract_document (fields_pkg title_ascii) soup_report) ! 1) =
      [\<lparr>q_id = 0, label = ''Name'', answer = [], field_type = Some ''LABEL'',
        element_id = None\<rparr>]"
    unfolding qs nb using lq by simp
  show ?thesis
    using h ex converts_report_pkg i len l3 nm n2 q1 by simp
qed

section \<open>Metadata\<close>

lemma metadata_extract:
  "metadata (extract_document fill soup) =
     [(''identifier'', meta_value soup ''dcterms.identifier''),
      (''language'', meta_value soup ''dcterms.language''),
      (''publisher'', meta_value soup ''dcterms.publisher''),
      (''date'', meta_value soup ''dcterms.date''),
      (''creator'', meta_value soup ''dcterms.creator'')]"
  by (simp add: extract_document_def extract_metadata_def metadata_loop_eq meta_fields_def)

lemma filter_first:
  "(case filter P xs of [] \<Rightarrow> None | e # _ \<Rightarrow> Some e) = Some m \<longleftrightarrow>
     (\<exists>pre post. xs = pre @ m # post \<and> P m \<and> (\<forall>x \<in> set pre. \<not> P x))"
proof (induction xs)
  case Nil
  then show ?case by simp
next
  case (Cons x xs)
  show ?case
  proof (cases "P x")
    case True
    have "(\<exists>pre post. x # xs = pre @ m # post \<and> P m \<and> (\<forall>y \<in> set pre. \<not> P y)) \<longleftrightarrow> x = m"
    proof
      assume "\<exists>pre post. x # xs = pre @ m # post \<and> P m \<and> (\<forall>y \<in> set pre. \<not> P y)"
      then obtain pre post where e: "x # xs = pre @ m # post" and n: "\<forall>y \<in> set pre. \<not> P y"
        by blast
      show "x = m"
      proof (cases pre)
        case Nil
        with e show ?thesis by simp
      next
        case (Cons p ps)
        with e have "p = x" by simp
        with Cons n True show ?thesis by simp
      qed
    next
      assume "x = m"
      with True have "x # xs = [] @ m # xs \<and> P m \<and> (\<forall>y \<in> set []. \<not> P y)" by simp
      then show "\<exists>pre post. x # xs = pre @ m # post \<and> P m \<and> (\<forall>y \<in> set pre. \<not> P y)"
        by blast
    qed
    with True show ?thesis by simp
  next
    case False
    have "(\<exists>pre post. x # xs = pre @ m # post \<and> P m \<and> (\<forall>y \<in> set pre. \<not> P y)) \<longleftrightarrow>
          (\<exists>pre post. xs = pre @ m # post \<and> P m \<and> (\<forall>y \<in> set pre. \<not> P y))"
    proof
      assume "\<exists>pre post. x # xs = pre @ m # post \<and> P m \<and> (\<forall>y \<in> set pre. \<not> P y)"
      then obtain pre post where e: "x # xs = pre @ m # post" and pm: "P m"
        and n: "\<forall>y \<in> set pre. \<not> P y"
        by blast
      show "\<exists>pre post. xs = pre @ m # post \<and> P m \<and> (\<forall>y \<in> set pre. \<not> P y)"
      proof (cases pre)
        case Nil
        with e pm False show ?thesis by simp
      next
        case (Cons p ps)
        with e n pm have "xs = ps @ m # post \<and> P m \<and> (\<forall>y \<in> set ps. \<not> P y)" by simp
        then show ?thesis by blast
      qed
    next
      assume "\<exists>pre post. xs = pre @ m # post \<and> P m \<and> (\<forall>y \<in> set pre. \<not> P y)"
      then obtain pre post where "xs = pre @ m # post" "P m" "\<forall>y \<in> set pre. \<not> P y"
        by blast
      with False have "x # xs = (x # pre) @ m # post \<and> P m \<and> (\<forall>y \<in> set (x # pre). \<not> P y)"
        by simp
      then show "\<exists>pre post. x # xs = pre @ m # post \<and> P m \<and> (\<forall>y \<in> set pre. \<not> P y)"
        by blast
    qed
    with False Cons.IH show ?thesis by simp
  qed
qed

lemma find_with_attr_Some:
  "find_with_attr n nm k v = Some m \<longleftrightarrow>
     (\<exists>pre post. find_all n nm = pre @ m # post \<and> get_attr m k = Some v
        \<and> (\<forall>x \<in> set pre. get_attr x k \<noteq> Some v))"
  unfolding find_with_attr_def by (rule filter_first)

lemma meta_value_Some:
  "meta_value soup meta_name = Some v \<longleftrightarrow>
     (\<exists>m. find_with_attr soup ''meta'' ''name'' meta_name = Some m
        \<and> get_attr m ''content'' = Some v \<and> v \<noteq> [])"
  by (auto simp: meta_value_def split: option.splits)

lemma metas_report:
  "find_all soup_report ''meta'' =
     [] @ Elem ''meta'' [(''name'', ''dcterms.creator''), (''content'', ''DrX'')] [] # []"
  by (simp add: soup_report_def find_all_def)

text \<open>
  C6. Whenever one of the three converters returns a document, its metadata dictionary
  has exactly the keys \<open>identifier\<close>, \<open>language\<close>, \<open>publisher\<close>, \<open>date\<close>, \<open>creator\<close>,
  in this order whatever the order of the \<open>meta\<close> elements. The value of a key is the
  string \<open>v\<close> exactly when the first \<open>meta\<close> element in document order whose \<open>name\<close>
  attribute is the key's \<open>dcterms\<close> name has the non-empty \<open>content\<close> attribute \<open>v\<close>;
  otherwise the key is present with the value \<open>None\<close>.
\<close>

theorem metadata_keys_and_values:
  assumes "converts str_title BS c html doc" and "(key, meta_name) \<in> set meta_fields"
  shows "map fst (metadata doc) =
           [''identifier'', ''language'', ''publisher'', ''date'', ''creator'']
    \<and> (\<exists>x. map_of (metadata doc) key = Some x)
    \<and> (\<forall>v. map_of (metadata doc) key = Some (Some v) \<longleftrightarrow>
          (\<exists>pre m post. find_all (BS html) ''meta'' = pre @ m # post
             \<and> get_attr m ''name'' = Some meta_name
             \<and> (\<forall>x \<in> set pre. get_attr x ''name'' \<noteq> Some meta_name)
             \<and> get_attr m ''content'' = Some v \<and> v \<noteq> []))"
proof -
  let ?soup = "BS html"
  have doc: "doc = extract_document (fill_of str_title c) ?soup"
    using assms(1) by (rule converts_extract)
  have md: "metadata doc =
     [(''identifier'', meta_value ?soup ''dcterms.identifier''),
      (''language'', meta_value ?soup ''dcterms.language''),
      (''publisher'', meta_value ?soup ''dcterms.publisher''),
      (''date'', meta_value ?soup ''dcterms.date''),
      (''creator'', meta_value ?soup ''dcterms.creator'')]"
    unfolding doc by (rule metadata_extract)
  have keys: "map fst (metadata doc) =
           [''identifier'', ''language'', ''publisher'', ''date'', ''creator'']"
    by (simp add: md)
  have look: "map_of (metadata doc) key = Some (meta_value ?soup meta_name)"
    using assms(2) by (auto simp: md meta_fields_def)
  have val: "map_of (metadata doc) key = Some (Some v) \<longleftrightarrow>
          (\<exists>pre m post. find_all ?soup ''meta'' = pre @ m # post
             \<and> get_attr m ''name'' = Some meta_name
             \<and> (\<forall>x \<in> set pre. get_attr x ''name'' \<noteq> Some meta_name)
             \<and> get_attr m ''content'' = Some v \<and> v \<noteq> [])" for v
    unfolding look by (simp add: meta_value_Some find_with_attr_Some) blast
  from keys look val show ?thesis by blast
qed

theorem metadata_keys_and_values_witness:
  "converts title_ascii parse_example Pkg page_report (extract_document (fields_pkg title_ascii) soup_report)
   \<and> (''creator'', ''dcterms.creator'') \<in> set meta_fields
   \<and> map fst (metadata (extract_document (fields_pkg title_ascii) soup_report)) =
        [''identifier'', ''language'', ''publisher'', ''date'', ''creator'']
   \<and> map_of (metadata (extract_document (fields_pkg title_ascii) soup_report)) ''creator'' = Some (Some ''DrX'')"
proof -
  have k: "(''creator'', ''dcterms.creator'') \<in> set meta_fields"
    by (simp add: meta_fields_def)
  note inst = metadata_keys_and_values [OF converts_report_pkg k]
  have "find_all (parse_example page_report) ''meta'' =
          [] @ Elem ''meta'' [(''name'', ''dcterms.creator''), (''content'', ''DrX'')] [] # []
      \<and> get_attr (Elem ''meta'' [(''name'', ''dcterms.creator''), (''content'', ''DrX'')] [])
            ''name'' = Some ''dcterms.creator''
      \<and> (\<forall>x \<in> set []. get_attr x ''name'' \<noteq> Some ''dcterms.creator'')
      \<and> get_attr (Elem ''meta'' [(''name'', ''dcterms.creator''), (''content'', ''DrX'')] [])
            ''content'' = Some ''DrX''
      \<and> ''DrX'' \<noteq> []"
    using metas_report by (simp add: parse_report)
  then have "map_of (metadata (extract_document (fields_pkg title_ascii) soup_report)) ''creator''
      = Some (Some ''DrX'')"
    using inst by blast
  with inst converts_report_pkg k show ?thesis by blast
qed

section \<open>Questions built from textareas\<close>

lemma strip_Nil: "strip [] = []"
  by (simp add: strip_def lstrip_def rstrip_def)

lemma textarea_question_fields:
  "q_id (textarea_question fb sec nm k ta) = k"
  "label (textarea_question fb sec nm k ta) =
     (case find_with_attr sec ''label'' ''for'' (textarea_id_of ta) of
        None \<Rightarrow> fb nm (textarea_id_of ta)
      | Some l \<Rightarrow> if strip (get_text l) \<noteq> [] then strip (get_text l)
                  else fb nm (textarea_id_of ta))"
  "answer (textarea_question fb sec nm k ta) = strip (get_text ta)"
  "field_type (textarea_question fb sec nm k ta) =
     Some (case get_attr ta ''data-field-type'' of Some v \<Rightarrow> v | None \<Rightarrow> ''TEXTAREA'')"
  "element_id (textarea_question fb sec nm k ta) = Some (textarea_id_of ta)"
  by (simp_all add: textarea_question_def textarea_id_of_def Let_def strip_Nil split: option.splits)

lemma nth_textarea_questions:
  assumes "converts str_title BS c html doc" and "c \<noteq> Root"
    and "i < length (find_all (BS html) ''section'')"
    and "k < length (find_all (find_all (BS html) ''section'' ! i) ''textarea'')"
  shows "questions (sections doc ! i) ! k =
     textarea_question
       (if c = Pkg then label_fallback_pkg str_title else label_fallback_fastapi)
       (find_all (BS html) ''section'' ! i) (name (sections doc ! i)) k
       (find_all (find_all (BS html) ''section'' ! i) ''textarea'' ! k)"
proof -
  let ?sec = "find_all (BS html) ''section'' ! i"
  have e: "sections doc ! i = section_entry (fill_of str_title c) ?sec i"
    using assms(1,3) by (rule nth_sections)
  have ne: "find_all ?sec ''textarea'' \<noteq> []"
    using assms(4) by auto
  have "questions (sections doc ! i) =
      map (\<lambda>(k, t). textarea_question
                              (if c = Pkg then label_fallback_pkg str_title else label_fallback_fastapi)
                              ?sec (name (sections doc ! i)) k t)
        (enumerate 0 (find_all ?sec ''textarea''))"
    using assms(2) ne
    by (cases c)
       (simp_all add: e section_entry_def Let_def fields_pkg_def fields_fastapi_def
          fields_strategy_eq)
  then show ?thesis
    using assms(4) by (simp add: nth_enumerate_eq)
qed

lemma report_first_textarea:
  "find_all (find_all (parse_example page_report) ''section'' ! 0) ''textarea'' ! 0 =
     Elem ''textarea'' [(''id'', ''f1'')] [Text ''normal'']"
  "find_all (parse_example page_report) ''section'' ! 0 =
     Elem ''section'' [(''data-section-name'', ''Findings'')]
       [Elem ''label'' [(''for'', ''f1'')] [Text ''Lungs''],
        Elem ''textarea'' [(''id'', ''f1'')] [Text ''normal'']]"
  "textarea_id_of (Elem ''textarea'' [(''id'', ''f1'')] [Text ''normal'']) = ''f1''"
  "find_with_attr
     (Elem ''section'' [(''data-section-name'', ''Findings'')]
       [Elem ''label'' [(''for'', ''f1'')] [Text ''Lungs''],
        Elem ''textarea'' [(''id'', ''f1'')] [Text ''normal'']])
     ''label'' ''for'' ''f1'' = Some (Elem ''label'' [(''for'', ''f1'')] [Text ''Lungs''])"
  "strip ''Lungs'' = ''Lungs''"
  "strip ''normal'' = ''normal''"
  "get_attr (Elem ''textarea'' [(''id'', ''f1'')] [Text ''normal'']) ''data-field-type'' = None"
  by code_simp+

text \<open>
  C4, as the code has it. In a document returned by \<open>radreportconverter/converter.py\<close> or
  \<open>fastapi_converter.py\<close>, the \<open>k\<close>-th question of a section with a textarea is built
  from its \<open>k\<close>-th textarea: its id is \<open>k\<close>; its label is the trimmed text of the first
  label element of the section, in document order, whose \<open>for\<close> attribute is the
  textarea's id, when there is such a label and that text is not empty, and a fallback
  otherwise; its answer is the trimmed text of the textarea; its field type is the
  textarea's \<open>data-field-type\<close> attribute, or \<open>TEXTAREA\<close> without one; its element id is
  the textarea's \<open>id\<close> attribute, or the empty string without one. The fallback label
  is the section's name; in \<open>radreportconverter/converter.py\<close>, when that name is empty,
  it is what \<open>title()\<close> returns for the textarea's id without the occurrences of
  \<open>Text\<close> and with underscores replaced by spaces.
\<close>

theorem textarea_question_contents:
  assumes "converts str_title BS c html doc" and "c \<noteq> Root"
    and "i < length (find_all (BS html) ''section'')"
    and "k < length (find_all (find_all (BS html) ''section'' ! i) ''textarea'')"
  shows "q_id (questions (sections doc ! i) ! k) = k
    \<and> label (questions (sections doc ! i) ! k) =
        (let textarea_id =
               textarea_id_of (find_all (find_all (BS html) ''section'' ! i) ''textarea'' ! k);
             fallback =
               (if c = Pkg \<and> name (sections doc ! i) = []
                then str_title (replace ''_'' '' '' (replace ''Text'' [] textarea_id))
                else name (sections doc ! i))
         in case find_with_attr (find_all (BS html) ''section'' ! i) ''label'' ''for'' textarea_id of
              None \<Rightarrow> fallback
            | Some l \<Rightarrow> if strip (get_text l) \<noteq> [] then strip (get_text l) else fallback)
    \<and> (\<forall>l. find_with_attr (find_all (BS html) ''section'' ! i) ''label'' ''for''
              (textarea_id_of (find_all (find_all (BS html) ''section'' ! i) ''textarea'' ! k))
            = Some l \<longleftrightarrow>
          (\<exists>pre post. find_all (find_all (BS html) ''section'' ! i) ''label'' = pre @ l # post
             \<and> get_attr l ''for'' =
                 Some (textarea_id_of (find_all (find_all (BS html) ''section'' ! i) ''textarea'' ! k))
             \<and> (\<forall>x \<in> set pre. get_attr x ''for'' \<noteq>
                 Some (textarea_id_of (find_all (find_all (BS html) ''section'' ! i) ''textarea'' ! k)))))
    \<and> answer (questions (sections doc ! i) ! k) =
        strip (get_text (find_all (find_all (BS html) ''section'' ! i) ''textarea'' ! k))
    \<and> field_type (questions (sections doc ! i) ! k) =
        Some (case get_attr (find_all (find_all (BS html) ''section'' ! i) ''textarea'' ! k)
                     ''data-field-type'' of
                Some v \<Rightarrow> v
              | None \<Rightarrow> ''TEXTAREA'')
    \<and> element_id (questions (sections doc ! i) ! k) =
        Some (textarea_id_of (find_all (find_all (BS html) ''section'' ! i) ''textarea'' ! k))"
proof -
  let ?sec = "find_all (BS html) ''section'' ! i"
  let ?ta = "find_all ?sec ''textarea'' ! k"
  note q = nth_textarea_questions [OF assms]
  have 1: "q_id (questions (sections doc ! i) ! k) = k"
    unfolding q by (rule textarea_question_fields)
  have 2: "label (questions (sections doc ! i) ! k) =
        (let textarea_id = textarea_id_of ?ta;
             fallback =
               (if c = Pkg \<and> name (sections doc ! i) = []
                then str_title (replace ''_'' '' '' (replace ''Text'' [] textarea_id))
                else name (sections doc ! i))
         in case find_with_attr ?sec ''label'' ''for'' textarea_id of
              None \<Rightarrow> fallback
            | Some l \<Rightarrow> if strip (get_text l) \<noteq> [] then strip (get_text l) else fallback)"
    unfolding q textarea_question_fields
    by (simp add: Let_def label_fallback_pkg_def label_fallback_fastapi_def split: option.splits)
  have 3: "\<forall>l. find_with_attr ?sec ''label'' ''for'' (textarea_id_of ?ta) = Some l \<longleftrightarrow>
          (\<exists>pre post. find_all ?sec ''label'' = pre @ l # post
             \<and> get_attr l ''for'' = Some (textarea_id_of ?ta)
             \<and> (\<forall>x \<in> set pre. get_attr x ''for'' \<noteq> Some (textarea_id_of ?ta)))"
    by (rule allI) (rule find_with_attr_Some)
  have 4: "answer (questions (sections doc ! i) ! k) = strip (get_text ?ta)"
    unfolding q by (rule textarea_question_fields)
  have 5: "field_type (questions (sections doc ! i) ! k) =
        Some (case get_attr ?ta ''data-field-type'' of Some v \<Rightarrow> v | None \<Rightarrow> ''TEXTAREA'')"
    unfolding q by (rule textarea_question_fields)
  have 6: "element_id (questions (sections doc ! i) ! k) = Some (textarea_id_of ?ta)"
    unfolding q by (rule textarea_question_fields)
  from 1 2 3 4 5 6 show ?thesis by (intro conjI)
qed

theorem textarea_question_contents_witness:
  "converts title_ascii parse_example Pkg page_report (extract_document (fields_pkg title_ascii) soup_report)
   \<and> Pkg \<noteq> Root
   \<and> (0::nat) < length (find_all (parse_example page_report) ''section'')
   \<and> (0::nat) < length (find_all (find_all (parse_example page_report) ''section'' ! 0) ''textarea'')
   \<and> q_id (questions (sections (extract_document (fields_pkg title_ascii) soup_report) ! 0) ! 0) = 0
   \<and> label (questions (sections (extract_document (fields_pkg title_ascii) soup_report) ! 0) ! 0) = ''Lungs''
   \<and> answer (questions (sections (extract_document (fields_pkg title_ascii) soup_report) ! 0) ! 0) = ''normal''
   \<and> field_type (questions (sections (extract_document (fields_pkg title_ascii) soup_report) ! 0) ! 0)
        = Some ''TEXTAREA''
   \<and> element_id (questions (sections (extract_document (fields_pkg title_ascii) soup_report) ! 0) ! 0)
        = Some ''f1''"
proof -
  have c: "Pkg \<noteq> Root" by simp
  have i: "(0::nat) < length (find_all (parse_example page_report) ''section'')"
    by code_simp
  have k: "(0::nat) < length (find_all (find_all (parse_example page_report) ''section'' ! 0) ''textarea'')"
    by code_simp
  note inst = textarea_question_contents [OF converts_report_pkg c i k]
  note ev = inst [unfolded report_first_textarea(1)]
  from ev [unfolded report_first_textarea(2)]
  have "q_id (questions (sections (extract_document (fields_pkg title_ascii) soup_report) ! 0) ! 0) = 0
   \<and> label (questions (sections (extract_document (fields_pkg title_ascii) soup_report) ! 0) ! 0) = ''Lungs''
   \<and> answer (questions (sections (extract_document (fields_pkg title_ascii) soup_report) ! 0) ! 0) = ''normal''
   \<and> field_type (questions (sections (extract_document (fields_pkg title_ascii) soup_report) ! 0) ! 0)
        = Some ''TEXTAREA''
   \<and> element_id (questions (sections (extract_document (fields_pkg title_ascii) soup_report) ! 0) ! 0)
        = Some ''f1''"
    by (simp add: report_first_textarea Let_def)
  with converts_report_pkg c i k show ?thesis by blast
qed

text \<open>
  C4 as stated fails in three ways. In \<open>radreportconverter/converter.py\<close>, for a section
  with an empty header (so that its name is empty) and no label, the label of the
  textarea's question is \<open>Findings\<close>, from the textarea's id \<open>findingsText\<close>, not the
  section's name. In both files, for a section with two labels for the textarea, the
  first with blank text and the second with the text \<open>Lungs\<close>, the label of the question
  is the section's name \<open>S\<close>: only the first label for the textarea is looked at. And
  for a textarea without an \<open>id\<close> attribute the question carries the element id \<open>""\<close>.
\<close>

theorem textarea_label_counterexample:
  "convert_html_to_json_pkg title_ascii parse_example [(''a.html'', page_blank_header)] ''a.html'' =
     Inr \<lparr>title = ''Untitled Document'',
          metadata = [(''identifier'', None), (''language'', None), (''publisher'', None),
                      (''date'', None), (''creator'', None)],
          sections =
            [\<lparr>name = [],
              questions =
                [\<lparr>q_id = 0, label = ''Findings'', answer = [],
                  field_type = Some ''TEXTAREA'',
                  element_id = Some ''findingsText''\<rparr>]\<rparr>]\<rparr>
   \<and> find_all (find_all (parse_example page_blank_header) ''section'' ! 0) ''label'' = []
   \<and> ''Findings'' \<noteq> ([] :: string)
   \<and> convert_html_to_json_fastapi parse_example page_two_labels =
     Inr \<lparr>title = ''Untitled Document'',
          metadata = [(''identifier'', None), (''language'', None), (''publisher'', None),
                      (''date'', None), (''creator'', None)],
          sections =
            [\<lparr>name = ''S'',
              questions =
                [\<lparr>q_id = 0, label = ''S'', answer = [],
                  field_type = Some ''TEXTAREA'', element_id = Some ''f1''\<rparr>]\<rparr>]\<rparr>
   \<and> convert_html_to_json_pkg title_ascii parse_example [(''a.html'', page_two_labels)] ''a.html'' =
       convert_html_to_json_fastapi parse_example page_two_labels
   \<and> find_all (find_all (parse_example page_two_labels) ''section'' ! 0) ''label'' =
       [Elem ''label'' [(''for'', ''f1'')] [Text '' ''],
        Elem ''label'' [(''for'', ''f1'')] [Text ''Lungs'']]
   \<and> strip ''Lungs'' = ''Lungs''
   \<and> convert_html_to_json_fastapi parse_example page_no_id =
     Inr \<lparr>title = ''Untitled Document'',
          metadata = [(''identifier'', None), (''language'', None), (''publisher'', None),
                      (''date'', None), (''creator'', None)],
          sections =
            [\<lparr>name = ''S'',
              questions =
                [\<lparr>q_id = 0, label = ''S'', answer = [],
                  field_type = Some ''TEXTAREA'', element_id = Some []\<rparr>]\<rparr>]\<rparr>
   \<and> get_attr (find_all (find_all (parse_example page_no_id) ''section'' ! 0) ''textarea'' ! 0)
         ''id'' = None"
  by code_simp


section \<open>Blank input\<close>

lemma blank_file_rejected:
  assumes "map_of dir filename = Some html" and "\<forall>ch \<in> set html. isspace ch"
  shows "convert_html_to_json_root BS dir filename = Inl ValueError"
    and "convert_html_to_json_pkg str_title BS dir filename = Inl ValueError"
  using assms
  by (simp_all add: convert_html_to_json_root_def convert_html_to_json_pkg_def convert_file_def
        strip_empty_iff)

lemma convert_file_results:
  "convert_file fill BS dir filename =
     (case map_of dir filename of
        None \<Rightarrow> Inl FileNotFoundError
      | Some html \<Rightarrow>
          if (\<forall>ch \<in> set html. isspace ch) then Inl ValueError
          else Inr (extract_document fill (BS html)))"
  by (auto simp: convert_file_def strip_empty_iff split: option.splits)

lemma fastapi_never_rejects:
  "convert_html_to_json_fastapi BS html \<noteq> Inl e"
  by (simp add: convert_html_to_json_fastapi_def)

text \<open>
  C1. Both \<open>converter.py\<close> files raise \<open>ValueError\<close> for a file whose text is empty or
  consists of whitespace (\<open>blank_file_rejected\<close>), and apart from a missing file this
  is their only error (\<open>convert_file_results\<close>). \<open>fastapi_converter.py\<close> has no such
  check and never raises (\<open>fastapi_never_rejects\<close>): for the empty text it returns a
  document without sections, titled \<open>Untitled Document\<close>.
\<close>

theorem fastapi_accepts_blank_input:
  "convert_html_to_json_fastapi parse_example [] =
     Inr \<lparr>title = ''Untitled Document'',
          metadata = [(''identifier'', None), (''language'', None), (''publisher'', None),
                      (''date'', None), (''creator'', None)],
          sections = []\<rparr>
   \<and> convert_html_to_json_pkg title_ascii parse_example [(''empty.html'', [])] ''empty.html'' = Inl ValueError
   \<and> convert_html_to_json_root parse_example [(''empty.html'', [])] ''empty.html'' = Inl ValueError"
  by code_simp


section \<open>The choice between textareas and labels\<close>

lemma element_ids_of_textarea_questions:
  "map element_id (map (\<lambda>(k, t). textarea_question fb sec nm k t) (enumerate n ts)) =
     map (\<lambda>t. Some (textarea_id_of t)) ts"
  by (induction ts arbitrary: n) (simp_all add: textarea_question_fields)

lemma strategy_textareas_only:
  assumes "converts str_title BS c html doc" and "c \<noteq> Root"
    and "i < length (find_all (BS html) ''section'')"
    and "find_all (find_all (BS html) ''section'' ! i) ''textarea'' \<noteq> []"
  shows "map element_id (questions (sections doc ! i)) =
           map (\<lambda>t. Some (textarea_id_of t))
             (find_all (find_all (BS html) ''section'' ! i) ''textarea'')"
    and "length (questions (sections doc ! i)) =
           length (find_all (find_all (BS html) ''section'' ! i) ''textarea'')"
proof -
  let ?sec = "find_all (BS html) ''section'' ! i"
  have e: "sections doc ! i = section_entry (fill_of str_title c) ?sec i"
    using assms(1,3) by (rule nth_sections)
  have qs: "questions (sections doc ! i) =
      map (\<lambda>(k, t). textarea_question
                              (if c = Pkg then label_fallback_pkg str_title else label_fallback_fastapi)
                              ?sec (name (sections doc ! i)) k t)
        (enumerate 0 (find_all ?sec ''textarea''))"
    using assms(2,4)
    by (cases c)
       (simp_all add: e section_entry_def Let_def fields_pkg_def fields_fastapi_def
          fields_strategy_eq)
  show "map element_id (questions (sections doc ! i)) =
           map (\<lambda>t. Some (textarea_id_of t)) (find_all ?sec ''textarea'')"
    unfolding qs by (rule element_ids_of_textarea_questions)
  show "length (questions (sections doc ! i)) = length (find_all ?sec ''textarea'')"
    unfolding qs by simp
qed

text \<open>
  C2. In \<open>radreportconverter/converter.py\<close> and \<open>fastapi_converter.py\<close> a section with a
  textarea has one question per textarea and no other (\<open>strategy_textareas_only\<close>).
  \<open>converter.py\<close> at the root has the label loop only: for the first section of the
  example, which has a label and a textarea, it returns the label's question and none
  for the textarea.
\<close>

theorem root_mixes_labels_with_textareas:
  "convert_html_to_json_root parse_example dir_example ''report.html'' =
     Inr \<lparr>title = ''Chest CT'',
          metadata = [(''identifier'', None), (''language'', None), (''publisher'', None),
                      (''date'', None), (''creator'', Some ''DrX'')],
          sections =
            [\<lparr>name = ''Findings'',
              questions = [\<lparr>q_id = 0, label = ''Lungs'', answer = [], field_type = None,
                            element_id = None\<rparr>]\<rparr>,
             \<lparr>name = ''Section 2'',
              questions = [\<lparr>q_id = 0, label = ''Name'', answer = [], field_type = None,
                            element_id = None\<rparr>,
                           \<lparr>q_id = 1, label = [], answer = [], field_type = None,
                            element_id = None\<rparr>]\<rparr>,
             \<lparr>name = ''Section 3'', questions = []\<rparr>]\<rparr>
   \<and> find_all (find_all (parse_example page_report) ''section'' ! 0) ''textarea'' =
       [Elem ''textarea'' [(''id'', ''f1'')] [Text ''normal'']]"
  by code_simp


section \<open>Sections without fields\<close>

lemma strategy_fallback_question:
  assumes "converts str_title BS c html doc" and "c \<noteq> Root"
    and "i < length (find_all (BS html) ''section'')"
    and "find_all (find_all (BS html) ''section'' ! i) ''textarea'' = []"
    and "nonblank_labels (find_all (BS html) ''section'' ! i) = []"
  shows "questions (sections doc ! i) =
     [\<lparr>q_id = 0, label = name (sections doc ! i), answer = [],
       field_type = Some ''SECTION'', element_id = None\<rparr>]"
proof -
  have e: "sections doc ! i = section_entry (fill_of str_title c) (find_all (BS html) ''section'' ! i) i"
    using assms(1,3) by (rule nth_sections)
  show ?thesis
    using assms(2,4,5)
    by (cases c)
       (simp_all add: e section_entry_def Let_def fields_pkg_def fields_fastapi_def
          fields_strategy_eq section_question_def)
qed

lemma fields_strategy_nonempty: "fields_strategy fb sec nm \<noteq> []"
  by (simp add: fields_strategy_eq enumerate_Nil_iff)

lemma strategy_sections_have_questions:
  assumes "converts str_title BS c html doc" and "c \<noteq> Root" and "s \<in> set (sections doc)"
  shows "questions s \<noteq> []"
proof -
  have "doc = extract_document (fill_of str_title c) (BS html)"
    using assms(1) by (rule converts_extract)
  with assms(3) obtain k e where "s = section_entry (fill_of str_title c) e k"
    by (auto simp: sections_extract)
  with assms(2) show ?thesis
    by (cases c)
       (simp_all add: section_entry_def Let_def fields_pkg_def fields_fastapi_def
          fields_strategy_nonempty)
qed

text \<open>
  C3. In \<open>radreportconverter/converter.py\<close> and \<open>fastapi_converter.py\<close> a section without
  textareas and without labels of non-blank text has the single question of type
  \<open>SECTION\<close> (\<open>strategy_fallback_question\<close>), and every section has a question
  (\<open>strategy_sections_have_questions\<close>). \<open>converter.py\<close> at the root adds no such
  question: for a section without contents it returns a section with no questions.
\<close>

theorem root_section_without_questions:
  "convert_html_to_json_root parse_example dir_bare_section ''a.html'' =
     Inr \<lparr>title = ''Untitled Document'',
          metadata = [(''identifier'', None), (''language'', None), (''publisher'', None),
                      (''date'', None), (''creator'', None)],
          sections = [\<lparr>name = ''Section 1'', questions = []\<rparr>]\<rparr>
   \<and> convert_html_to_json_pkg title_ascii parse_example dir_bare_section ''a.html'' =
     Inr \<lparr>title = ''Untitled Document'',
          metadata = [(''identifier'', None), (''language'', None), (''publisher'', None),
                      (''date'', None), (''creator'', None)],
          sections =
            [\<lparr>name = ''Section 1'',
              questions = [\<lparr>q_id = 0, label = ''Section 1'', answer = [],
                            field_type = Some ''SECTION'', element_id = None\<rparr>]\<rparr>]\<rparr>"
  by code_simp


section \<open>The batch driver\<close>

lemma save_json_output_pkg_writes_nothing:
  "save_json_output_pkg dir data filename = Inr dir' \<Longrightarrow> dir' = dir"
  by (auto simp: save_json_output_pkg_def split: option.splits)

lemma convert_one_pkg_dir:
  "fst (convert_one convert save_json_output_pkg f st) = fst st"
  by (auto simp: convert_one_def split: prod.splits sum.splits
        dest: save_json_output_pkg_writes_nothing)

lemma convert_loop_pkg_dir:
  "fst (convert_loop convert save_json_output_pkg fs st) = fst st"
  by (induction fs arbitrary: st) (simp_all add: convert_one_pkg_dir)

lemma convert_all_html_files_pkg_writes_nothing:
  "fst (convert_all_html_files_pkg str_title BS dir) = dir"
  by (simp add: convert_all_html_files_pkg_def convert_all_def Let_def case_prod_unfold
        convert_loop_pkg_dir)

lemma convert_one_counts:
  "convert_one convert save f (dir, s, fl) = (dir', s', fl') \<Longrightarrow> s' + fl' = s + fl + 1"
  by (auto simp: convert_one_def split: sum.splits)

lemma convert_loop_counts:
  "convert_loop convert save fs (dir, s, fl) = (dir', s', fl') \<Longrightarrow> s' + fl' = s + fl + length fs"
proof (induction fs arbitrary: dir s fl)
  case Nil
  then show ?case by simp
next
  case (Cons f fs)
  obtain d1 s1 f1 where one: "convert_one convert save f (dir, s, fl) = (d1, s1, f1)"
    by (cases "convert_one convert save f (dir, s, fl)") auto
  with Cons.prems have "convert_loop convert save fs (d1, s1, f1) = (dir', s', fl')"
    by simp
  then have "s' + fl' = s1 + f1 + length fs"
    by (rule Cons.IH)
  with convert_one_counts [OF one] show ?case by simp
qed

lemma convert_all_counts:
  "convert_all convert save dir = (dir', Some (s, fl)) \<Longrightarrow>
     s + fl = length (filter (\<lambda>f. endswith f ''.html'') (map fst dir))"
  by (auto simp: convert_all_def Let_def split: if_splits prod.splits
        dest: convert_loop_counts)

lemma map_of_write_file: "map_of (write_file f content dir) f = Some content"
  by (induction dir) auto

lemma convert_one_root_writes:
  assumes "convert_html_to_json_root BS dir f = Inr result"
  shows "convert_one (convert_html_to_json_root BS)
           (\<lambda>dir result output_name.
              save_json_output_root json_dumps dir result (Some output_name))
           f (dir, s, fl)
         = (write_file (replace ''.html'' ''.json'' f) (json_dumps result) dir, s + 1, fl)"
  using assms by (simp add: convert_one_def save_json_output_root_def)

text \<open>
  C8. \<open>convert_all_html_files\<close> handles every \<open>.html\<close> file of the directory and counts
  it as a success or as a failure (\<open>convert_all_counts\<close>); in \<open>converter.py\<close> at the root
  every success writes the dumped result to the \<open>.json\<close> file
  (\<open>convert_one_root_writes\<close>). In \<open>radreportconverter/converter.py\<close> the function
  \<open>save_json_output\<close> never writes, so the directory is unchanged
  (\<open>convert_all_html_files_pkg_writes_nothing\<close>): for a directory with the one file
  \<open>a.html\<close> the summary counts one success, and there is no \<open>a.json\<close> afterwards.
\<close>

theorem pkg_batch_writes_no_json:
  "convert_all_html_files_pkg title_ascii parse_example dir_bare_section =
     (dir_bare_section, Some (1, 0))
   \<and> map_of dir_bare_section ''a.json'' = None
   \<and> map_of (fst (convert_all_html_files_root parse_example json_dumps dir_bare_section))
        ''a.json''
      = Some (json_dumps
          \<lparr>title = ''Untitled Document'',
           metadata = [(''identifier'', None), (''language'', None), (''publisher'', None),
                       (''date'', None), (''creator'', None)],
           sections = [\<lparr>name = ''Section 1'', questions = []\<rparr>]\<rparr>)"
  by code_simp

end
